theory Spec2Isabelle
  imports Main "HOL-Library.AList" "HOL-Library.Sublist"
begin

section \<open>PromptEngine: template store and substitution engine\<close>

text \<open>
  A shallow embedding of \<^verbatim>\<open>src/lib/PromptCache.ts\<close>, \<^verbatim>\<open>src/lib/TemplateEngine.ts\<close>,
  \<^verbatim>\<open>src/utils/VariableDefinitions.ts\<close> and the declarations of \<^verbatim>\<open>types/interfaces\<close>.

  \<^item> A JavaScript string is a \<open>string\<close>: one \<open>char\<close> per code unit, so the embedding
    covers the strings whose code units are below 256.
  \<^item> A \<^verbatim>\<open>Map<string, string>\<close> keeps its entries in insertion order; its contents are an
    association list with \<open>AList.update\<close> as \<^verbatim>\<open>Map.prototype.set\<close> (an existing key keeps
    its place, a new key goes last).
  \<^item> A \<^verbatim>\<open>Set<string>\<close> is the list of its members in insertion order.
  \<^item> The variable maps are objects that several holders may share, so they live in a
    heap of map objects addressed by references; \<^verbatim>\<open>new Map(...)\<close> allocates.
  \<^item> A rejected promise or a thrown error is the \<open>Inl\<close> of a sum.
  \<^item> A call runs from its start to its end: no other call is interleaved at an
    \<^verbatim>\<open>await\<close>.
\<close>

subsection \<open>Errors, options and results (types/interfaces)\<close>

datatype TemplateEngineErrorType =
    INITIALIZATION_ERROR
  | CACHE_ERROR
  | FILE_NOT_FOUND
  | VARIABLE_NOT_DEFINED
  | PROCESSING_ERROR
  | VALIDATION_ERROR

record TemplateEngineError =
  errorType :: TemplateEngineErrorType
  message :: string

text \<open>
  A \<^verbatim>\<open>RegExp\<close> is used only through \<^verbatim>\<open>text.match(pattern)\<close>: it is the function from the
  text to the array \<^verbatim>\<open>match\<close> returns (\<open>[]\<close> for \<^verbatim>\<open>null\<close>), or to the text of the error
  the matcher throws.
\<close>

type_synonym RegExp = "string \<Rightarrow> string + string list"

record ProcessingOptions =
  strictMode :: "bool option"
  validateVariables :: "bool option"
  variablePattern :: "RegExp option"

record TemplateProcessingResult =
  processedTemplate :: string
  variablesFound :: "string list"
  variablesReplaced :: "string list"
  undefinedVariables :: "string list"

record VariableDefinition =
  name :: string
  "value" :: string
  description :: "string option"

subsection \<open>Strings\<close>

text \<open>\<^verbatim>\<open>Array.prototype.join\<close>.\<close>

fun join :: "string \<Rightarrow> string list \<Rightarrow> string" where
  "join sep [] = []"
| "join sep [x] = x"
| "join sep (x # y # ys) = x @ sep @ join sep (y # ys)"

text \<open>
  \<^verbatim>\<open>GetSubstitution\<close> of ECMAScript for a string pattern: no captures and no named
  captures, so of the replacement patterns only \<^verbatim>\<open>$$\<close>, \<^verbatim>\<open>$&\<close>, the dollar sign with a
  backquote (the text before the match) and the dollar sign with a quote (the text after
  it) are rewritten; every other character is copied.
\<close>

fun GetSubstitution :: "string \<Rightarrow> string \<Rightarrow> nat \<Rightarrow> string \<Rightarrow> string" where
  "GetSubstitution matched str position [] = []"
| "GetSubstitution matched str position [c] = [c]"
| "GetSubstitution matched str position (c # d # t) =
     (if c = CHR ''$'' \<and> d = CHR ''$'' then
        CHR ''$'' # GetSubstitution matched str position t
      else if c = CHR ''$'' \<and> d = CHR 0x60 then
        take position str @ GetSubstitution matched str position t
      else if c = CHR ''$'' \<and> d = CHR ''&'' then
        matched @ GetSubstitution matched str position t
      else if c = CHR ''$'' \<and> d = CHR 0x27 then
        drop (position + length matched) str @ GetSubstitution matched str position t
      else c # GetSubstitution matched str position (d # t))"

text \<open>
  \<^verbatim>\<open>String.prototype.replaceAll(searchString, replaceValue)\<close> with two strings. The
  matches are found from left to right and do not overlap; \<open>skip\<close> counts the code units
  of the current match that are still to be passed over, \<open>position\<close> is the index in
  \<open>str\<close> of the first code unit of \<open>rest\<close>. An empty search string matches before
  every code unit and at the end.
\<close>

fun replaceAll_from :: "string \<Rightarrow> string \<Rightarrow> string \<Rightarrow> nat \<Rightarrow> nat \<Rightarrow> string \<Rightarrow> string" where
  "replaceAll_from searchString replaceValue str skip position [] =
     (if searchString = [] then GetSubstitution searchString str position replaceValue else [])"
| "replaceAll_from searchString replaceValue str (Suc skip) position (c # rest) =
     replaceAll_from searchString replaceValue str skip (Suc position) rest"
| "replaceAll_from searchString replaceValue str 0 position (c # rest) =
     (if searchString = [] then
        GetSubstitution searchString str position replaceValue @
          c # replaceAll_from searchString replaceValue str 0 (Suc position) rest
      else if prefix searchString (c # rest) then
        GetSubstitution searchString str position replaceValue @
          replaceAll_from searchString replaceValue str (length searchString - 1) (Suc position) rest
      else c # replaceAll_from searchString replaceValue str 0 (Suc position) rest)"

definition replaceAll :: "string \<Rightarrow> string \<Rightarrow> string \<Rightarrow> string" where
  "replaceAll str searchString replaceValue =
     replaceAll_from searchString replaceValue str 0 0 str"

text \<open>
  The default pattern \<^verbatim>\<open>/{{(.*?)}}/g\<close>. A line terminator is not matched by the dot.
  \<open>lazy_body\<close> reads the text after an opening \<^verbatim>\<open>{{\<close>: the shortest run of characters
  other than line terminators that is followed by \<^verbatim>\<open>}}\<close>.
\<close>

definition isLineTerminator :: "char \<Rightarrow> bool" where
  "isLineTerminator c = (c = CHR 0x0A \<or> c = CHR 0x0D)"

fun lazy_body :: "string \<Rightarrow> string option" where
  "lazy_body [] = None"
| "lazy_body [c] = None"
| "lazy_body (c # d # t) =
     (if c = CHR ''}'' \<and> d = CHR ''}'' then Some []
      else if isLineTerminator c then None
      else map_option ((#) c) (lazy_body (d # t)))"

definition match_here :: "string \<Rightarrow> string option" where
  "match_here s =
     (if prefix ''{{'' s then map_option (\<lambda>b. ''{{'' @ b @ ''}}'') (lazy_body (drop 2 s))
      else None)"

text \<open>
  All matches of the default pattern, as \<^verbatim>\<open>text.match(/{{(.*?)}}/g)\<close> lists them: the
  search resumes after the end of each match.
\<close>

fun match_all :: "nat \<Rightarrow> string \<Rightarrow> string list" where
  "match_all skip [] = []"
| "match_all (Suc skip) (c # rest) = match_all skip rest"
| "match_all 0 (c # rest) =
     (case match_here (c # rest) of
        Some tok \<Rightarrow> tok # match_all (length tok - 1) rest
      | None \<Rightarrow> match_all 0 rest)"

definition default_variablePattern :: RegExp where
  "default_variablePattern promptFileData = Inr (match_all 0 promptFileData)"

subsection \<open>Sets and maps of JavaScript\<close>

definition Set_add :: "string \<Rightarrow> string list \<Rightarrow> string list" where
  "Set_add x s = (if x \<in> set s then s else s @ [x])"

definition new_Set :: "string list \<Rightarrow> string list" where
  "new_Set xs = fold Set_add xs []"

type_synonym ref = nat
type_synonym StringMap = "(string \<times> string) list"

record heap =
  cells :: "ref \<Rightarrow> StringMap"
  next_ref :: ref

definition Map_entries :: "StringMap \<Rightarrow> StringMap" where
  "Map_entries entries = fold (\<lambda>(k, v). AList.update k v) entries []"

definition new_Map :: "StringMap \<Rightarrow> heap \<Rightarrow> ref \<times> heap" where
  "new_Map entries h =
     (next_ref h,
      h\<lparr>cells := (cells h)(next_ref h := Map_entries entries), next_ref := Suc (next_ref h)\<rparr>)"

definition Map_set :: "ref \<Rightarrow> string \<Rightarrow> string \<Rightarrow> heap \<Rightarrow> heap" where
  "Map_set r k v h = h\<lparr>cells := (cells h)(r := AList.update k v (cells h r))\<rparr>"

definition Map_get :: "heap \<Rightarrow> ref \<Rightarrow> string \<Rightarrow> string option" where
  "Map_get h r k = map_of (cells h r) k"

definition Map_has :: "heap \<Rightarrow> ref \<Rightarrow> string \<Rightarrow> bool" where
  "Map_has h r k = (k \<in> set (map fst (cells h r)))"

subsection \<open>VariableDefinitions (src/utils/VariableDefinitions.ts)\<close>

text \<open>
  The one field of a \<^verbatim>\<open>VariableDefinitions\<close> object is assigned in its constructor only,
  so the object is the reference to its map.
\<close>

record VariableDefinitions =
  variableMap :: ref

datatype MapOrArray = IsMapRef ref | IsArray "VariableDefinition list"

definition VariableDefinitions_new :: "MapOrArray option \<Rightarrow> heap \<Rightarrow> VariableDefinitions \<times> heap" where
  "VariableDefinitions_new initialVariables h =
     (let (m0, h0) = new_Map [] h in
      case initialVariables of
        None \<Rightarrow> (\<lparr>variableMap = m0\<rparr>, h0)
      | Some (IsMapRef src) \<Rightarrow>
          (let (m1, h1) = new_Map (cells h0 src) h0 in (\<lparr>variableMap = m1\<rparr>, h1))
      | Some (IsArray varDefs) \<Rightarrow>
          (\<lparr>variableMap = m0\<rparr>, fold (\<lambda>varDef. Map_set m0 (name varDef) (value varDef)) varDefs h0))"

definition getVariable :: "VariableDefinitions \<Rightarrow> heap \<Rightarrow> string \<Rightarrow> string option" where
  "getVariable this h nm = Map_get h (variableMap this) nm"

definition hasVariable :: "VariableDefinitions \<Rightarrow> heap \<Rightarrow> string \<Rightarrow> bool" where
  "hasVariable this h nm = Map_has h (variableMap this) nm"

definition getVariableMap :: "VariableDefinitions \<Rightarrow> heap \<Rightarrow> ref \<times> heap" where
  "getVariableMap this h = new_Map (cells h (variableMap this)) h"

definition setVariables :: "VariableDefinitions \<Rightarrow> MapOrArray \<Rightarrow> heap \<Rightarrow> heap" where
  "setVariables this variables h =
     (case variables of
        IsMapRef src \<Rightarrow> fold (\<lambda>(nm, val). Map_set (variableMap this) nm val) (cells h src) h
      | IsArray varDefs \<Rightarrow>
          fold (\<lambda>varDef. Map_set (variableMap this) (name varDef) (value varDef)) varDefs h)"

definition getVariableNames :: "VariableDefinitions \<Rightarrow> heap \<Rightarrow> string list" where
  "getVariableNames this h = map fst (cells h (variableMap this))"

subsection \<open>PromptCache (src/lib/PromptCache.ts)\<close>

text \<open>
  The cache map of the store is private and never handed out, so it is a field of the
  record. \<open>Platform\<close> is what the store uses of Node: \<^verbatim>\<open>path.join\<close>, and
  \<^verbatim>\<open>fsPromises.readFile(path, 'utf8')\<close>, which gives the content or rejects with an error
  (its text).
\<close>

record PromptCache =
  cache :: StringMap
  initialized :: bool
  promptsDirectory :: string
  promptFileExtensions :: "string list"

record Platform =
  path_join :: "string \<Rightarrow> string \<Rightarrow> string"
  readFile :: "string \<Rightarrow> string + string"

definition PromptCache_new :: "string option \<Rightarrow> string list option \<Rightarrow> PromptCache" where
  "PromptCache_new dir exts =
     \<lparr>cache = [],
      initialized = False,
      promptsDirectory = (case dir of None \<Rightarrow> ''src/prompts'' | Some d \<Rightarrow> d),
      promptFileExtensions = (case exts of None \<Rightarrow> [''.txt'', ''.md'', ''.prompt''] | Some e \<Rightarrow> e)\<rparr>"

text \<open>
  \<open>static_instance\<close> is the static field \<^verbatim>\<open>PromptCache.instance\<close>; \<open>getInstance\<close> returns
  the instance and the field after the call.
\<close>

definition getInstance ::
  "string option \<Rightarrow> string list option \<Rightarrow> PromptCache option \<Rightarrow> PromptCache \<times> PromptCache option" where
  "getInstance dir exts static_instance =
     (case static_instance of
        None \<Rightarrow> (let pc = PromptCache_new dir exts in (pc, Some pc))
      | Some pc \<Rightarrow> (pc, Some pc))"

definition not_initialized_error :: TemplateEngineError where
  "not_initialized_error =
     \<lparr>errorType = INITIALIZATION_ERROR,
      message = ''PromptCache not initialized. Call initialize() first.''\<rparr>"

definition getPrompt :: "PromptCache \<Rightarrow> string \<Rightarrow> TemplateEngineError + string" where
  "getPrompt this fileName =
     (if \<not> initialized this then Inl not_initialized_error
      else case map_of (cache this) fileName of
        None \<Rightarrow>
          Inl \<lparr>errorType = FILE_NOT_FOUND,
               message = ''Prompt file '' @ [CHR 0x27] @ fileName @ [CHR 0x27] @
                 '' not found in cache. Available files: '' @ join '', '' (map fst (cache this))\<rparr>
      | Some content \<Rightarrow> Inr content)"

definition getPromptWithFallback ::
  "Platform \<Rightarrow> PromptCache \<Rightarrow> string \<Rightarrow> (TemplateEngineError + string) \<times> PromptCache" where
  "getPromptWithFallback node this fileName =
     (if \<not> initialized this then (Inl not_initialized_error, this)
      else case map_of (cache this) fileName of
        Some content \<Rightarrow> (Inr content, this)
      | None \<Rightarrow>
          (case readFile node (path_join node (promptsDirectory this) fileName) of
             Inr diskContent \<Rightarrow>
               (Inr diskContent, this\<lparr>cache := AList.update fileName diskContent (cache this)\<rparr>)
           | Inl err \<Rightarrow>
               (Inl \<lparr>errorType = FILE_NOT_FOUND,
                     message = ''Prompt file '' @ [CHR 0x27] @ fileName @ [CHR 0x27] @
                       '' not found in cache or on disk. Available cached files: '' @
                       join '', '' (map fst (cache this)) @ ''. Error: '' @ err\<rparr>,
                this)))"

definition hasPrompt :: "PromptCache \<Rightarrow> string \<Rightarrow> bool" where
  "hasPrompt this fileName = (fileName \<in> set (map fst (cache this)))"

subsection \<open>TemplateEngine (src/lib/TemplateEngine.ts)\<close>

record TemplateEngineConfig =
  promptsDirectory :: string
  variableDefinitions :: ref
  enableCaching :: "bool option"
  promptFileExtensions :: "string list option"

text \<open>
  The field \<^verbatim>\<open>promptCache\<close> of an engine always holds \<^verbatim>\<open>PromptCache.instance\<close>, the only
  \<^verbatim>\<open>PromptCache\<close> object there is (the constructor is private and \<open>getInstance\<close> is its
  one caller). The operations that read it take the state of that object as the
  argument \<open>promptCache\<close>.
\<close>

record TemplateEngine =
  variableDefinitions :: VariableDefinitions
  config :: TemplateEngineConfig
  initialized :: bool

definition TemplateEngine_new ::
  "TemplateEngineConfig \<Rightarrow> PromptCache option \<Rightarrow> heap \<Rightarrow> TemplateEngine \<times> PromptCache option \<times> heap" where
  "TemplateEngine_new cfg static_instance h =
     (let (vd, h') =
            VariableDefinitions_new (Some (IsMapRef (TemplateEngineConfig.variableDefinitions cfg))) h;
          (promptCache, static_instance') =
            getInstance (Some (TemplateEngineConfig.promptsDirectory cfg))
              (TemplateEngineConfig.promptFileExtensions cfg) static_instance
      in (\<lparr>variableDefinitions = vd, config = cfg, initialized = False\<rparr>, static_instance', h'))"

definition readPromptFile :: "PromptCache \<Rightarrow> string \<Rightarrow> TemplateEngineError + string" where
  "readPromptFile promptCache promptFileName = getPrompt promptCache promptFileName"

definition no_options :: ProcessingOptions where
  "no_options = \<lparr>strictMode = None, validateVariables = None, variablePattern = None\<rparr>"

definition findUniqueVariablesRequired ::
  "string \<Rightarrow> ProcessingOptions \<Rightarrow> TemplateEngineError + string list" where
  "findUniqueVariablesRequired promptFileData options =
     (let pattern = (case variablePattern options of Some p \<Rightarrow> p | None \<Rightarrow> default_variablePattern) in
      case pattern promptFileData of
        Inl err \<Rightarrow>
          Inl \<lparr>errorType = PROCESSING_ERROR, message = ''Error finding unique variables: '' @ err\<rparr>
      | Inr variables \<Rightarrow> (if variables = [] then Inr [] else Inr (new_Set variables)))"

definition validateVariablesWithMap ::
  "string list \<Rightarrow> VariableDefinitions \<Rightarrow> heap \<Rightarrow> TemplateEngineError + bool" where
  "validateVariablesWithMap found variableMap' h =
     (if found \<noteq> [] then
        (let undefinedVars = filter (\<lambda>variable. \<not> hasVariable variableMap' h variable) found in
         if undefinedVars \<noteq> [] then
           Inl \<lparr>errorType = VARIABLE_NOT_DEFINED,
                message = ''Variables not defined: '' @ join '', '' undefinedVars @
                  ''. Available variables: '' @ join '', '' (getVariableNames variableMap' h)\<rparr>
         else Inr True)
      else
        Inl \<lparr>errorType = VALIDATION_ERROR, message = ''No variables found in the prompt file.''\<rparr>)"

text \<open>
  The second argument of \<open>processTemplate\<close> is a map of overrides, a record of options
  or absent; lines 140 to 149 of the source choose by \<^verbatim>\<open>instanceof Map\<close>.
\<close>

datatype OverridesOrOptions = IsMap ref | IsOptions ProcessingOptions | IsUndefined

definition resolveArguments ::
  "OverridesOrOptions \<Rightarrow> ProcessingOptions option \<Rightarrow> ref option \<times> ProcessingOptions" where
  "resolveArguments variableOverridesOrOptions options =
     (case variableOverridesOrOptions of
        IsMap m \<Rightarrow> (Some m, (case options of None \<Rightarrow> no_options | Some opts \<Rightarrow> opts))
      | IsOptions opts \<Rightarrow> (None, opts)
      | IsUndefined \<Rightarrow> (None, no_options))"

text \<open>Lines 161 to 165: the combined variable definitions of one request.\<close>

definition combineVariables ::
  "TemplateEngine \<Rightarrow> ref option \<Rightarrow> heap \<Rightarrow> VariableDefinitions \<times> heap" where
  "combineVariables this variableOverrides h =
     (let (m, h1) = getVariableMap (variableDefinitions this) h;
          (combinedVariables, h2) = VariableDefinitions_new (Some (IsMapRef m)) h1
      in case variableOverrides of
           None \<Rightarrow> (combinedVariables, h2)
         | Some ov \<Rightarrow> (combinedVariables, setVariables combinedVariables (IsMapRef ov) h2))"

text \<open>Lines 192 to 197: in non-strict mode the undefined variables are collected.\<close>

definition collectUndefined ::
  "VariableDefinitions \<Rightarrow> heap \<Rightarrow> string list \<Rightarrow> TemplateProcessingResult \<Rightarrow> TemplateProcessingResult" where
  "collectUndefined combinedVariables h found result =
     fold (\<lambda>variable res.
             if \<not> hasVariable combinedVariables h variable
             then res\<lparr>undefinedVariables := Set_add variable (undefinedVariables res)\<rparr>
             else res) found result"

text \<open>Lines 201 to 212: the replacement loop over the variables found.\<close>

fun replaceVariables ::
  "VariableDefinitions \<Rightarrow> heap \<Rightarrow> string list \<Rightarrow> string \<times> TemplateProcessingResult \<Rightarrow>
   string \<times> TemplateProcessingResult" where
  "replaceVariables combinedVariables h [] (updatedPrompt, result) = (updatedPrompt, result)"
| "replaceVariables combinedVariables h (variable # rest) (updatedPrompt, result) =
     (case getVariable combinedVariables h variable of
        Some val \<Rightarrow>
          replaceVariables combinedVariables h rest
            (replaceAll updatedPrompt variable val,
             result\<lparr>variablesReplaced := Set_add variable (variablesReplaced result)\<rparr>)
      | None \<Rightarrow>
          replaceVariables combinedVariables h rest
            (updatedPrompt,
             result\<lparr>undefinedVariables := Set_add variable (undefinedVariables result)\<rparr>))"

text \<open>
  \<open>processTemplate\<close> returns the outcome of the promise, the engine and the heap after
  the call. Every error of the embedding is a \<^verbatim>\<open>TemplateEngineError\<close>, which the last
  \<^verbatim>\<open>catch\<close> of the source rethrows as it is.
\<close>

definition processTemplate ::
  "TemplateEngine \<Rightarrow> PromptCache \<Rightarrow> heap \<Rightarrow> string \<Rightarrow> OverridesOrOptions \<Rightarrow> ProcessingOptions option \<Rightarrow>
   (TemplateEngineError + TemplateProcessingResult) \<times> TemplateEngine \<times> heap" where
  "processTemplate this promptCache h promptFileName variableOverridesOrOptions options =
     (let (variableOverrides, processingOptions) = resolveArguments variableOverridesOrOptions options in
      if \<not> initialized this then
        (Inl \<lparr>errorType = INITIALIZATION_ERROR,
              message = ''TemplateEngine not initialized. Call initialize() first.''\<rparr>, this, h)
      else case readPromptFile promptCache promptFileName of
        Inl err \<Rightarrow> (Inl err, this, h)
      | Inr promptFileData \<Rightarrow>
          (case findUniqueVariablesRequired promptFileData processingOptions of
             Inl err \<Rightarrow> (Inl err, this, h)
           | Inr found \<Rightarrow>
               (let (combinedVariables, h') = combineVariables this variableOverrides h;
                    result = \<lparr>processedTemplate = promptFileData, variablesFound = found,
                              variablesReplaced = [], undefinedVariables = []\<rparr>
                in if found = [] then
                     (if strictMode processingOptions \<noteq> Some False then
                        (Inl \<lparr>errorType = VALIDATION_ERROR,
                              message = ''No variables found in the prompt file.''\<rparr>, this, h')
                      else (Inr result, this, h'))
                   else
                     (case (if validateVariables processingOptions \<noteq> Some False then
                              (case validateVariablesWithMap found combinedVariables h' of
                                 Inl err \<Rightarrow>
                                   (if strictMode processingOptions \<noteq> Some False then Inl err
                                    else Inr (collectUndefined combinedVariables h' found result))
                               | Inr ok \<Rightarrow> Inr result)
                            else Inr result) of
                        Inl err \<Rightarrow> (Inl err, this, h')
                      | Inr result1 \<Rightarrow>
                          (let (updatedPrompt, result2) =
                                 replaceVariables combinedVariables h' found (promptFileData, result1)
                           in (Inr (result2\<lparr>processedTemplate := updatedPrompt\<rparr>), this, h'))))))"

definition getRequiredVariables ::
  "TemplateEngine \<Rightarrow> PromptCache \<Rightarrow> string \<Rightarrow> ProcessingOptions option \<Rightarrow>
   TemplateEngineError + string list" where
  "getRequiredVariables this promptCache promptFileName options =
     (case readPromptFile promptCache promptFileName of
        Inl err \<Rightarrow> Inl err
      | Inr promptFileData \<Rightarrow>
          findUniqueVariablesRequired promptFileData
            (case options of None \<Rightarrow> no_options | Some opts \<Rightarrow> opts))"

definition getVariableDefinitions :: "TemplateEngine \<Rightarrow> heap \<Rightarrow> ref \<times> heap" where
  "getVariableDefinitions this h = getVariableMap (variableDefinitions this) h"

subsection \<open>Vocabulary of the statements\<close>

text \<open>
  \<open>combineVariables\<close> allocates three maps: the copy \<open>getVariableMap\<close> returns, the
  empty map of the constructor and the copy the constructor keeps. The last one is the
  map of the combined definitions.
\<close>

definition combined_ref :: "heap \<Rightarrow> ref" where
  "combined_ref h = Suc (Suc (next_ref h))"

text \<open>
  The merged mapping as the specification words it: the baseline with the entries of the
  override on top, an override entry winning over a baseline entry of the same key.
\<close>

definition mergedMapping :: "TemplateEngine \<Rightarrow> ref option \<Rightarrow> heap \<Rightarrow> string \<Rightarrow> string option" where
  "mergedMapping this variableOverrides h =
     map_of (cells h (variableMap (variableDefinitions this))) ++
     (case variableOverrides of None \<Rightarrow> Map.empty | Some ov \<Rightarrow> map_of (cells h ov))"

text \<open>
  The references a request reads are allocated and hold maps of JavaScript: no key
  occurs twice.
\<close>

definition maps_allocated :: "TemplateEngine \<Rightarrow> ref option \<Rightarrow> heap \<Rightarrow> bool" where
  "maps_allocated this variableOverrides h =
     (variableMap (variableDefinitions this) < next_ref h \<and>
      distinct (map fst (cells h (variableMap (variableDefinitions this)))) \<and>
      (case variableOverrides of
         None \<Rightarrow> True
       | Some ov \<Rightarrow> ov < next_ref h \<and> distinct (map fst (cells h ov))))"

text \<open>
  The text the replacement loop leaves, for a given lookup: one \<open>replaceAll\<close> for every
  discovered token the lookup defines, in the order of the set of tokens.
\<close>

definition substituteAll :: "(string \<Rightarrow> string option) \<Rightarrow> string list \<Rightarrow> string \<Rightarrow> string" where
  "substituteAll lookup found text =
     fold (\<lambda>v t. case lookup v of Some val \<Rightarrow> replaceAll t v val | None \<Rightarrow> t) found text"

subsection \<open>Example states\<close>

text \<open>
  A heap with three maps (a baseline and two maps of overrides), an initialized engine
  on the first of them, a ready store with three templates and a file system with one
  more template.
\<close>

definition demo_heap :: heap where
  "demo_heap =
     \<lparr>cells = (\<lambda>_. [])(0 := [(''{{x}}'', ''a'')], 1 := [(''{{x}}'', ''b'')],
                2 := [(''{{x}}'', ''$$'')]),
      next_ref = 3\<rparr>"

definition demo_config :: TemplateEngineConfig where
  "demo_config =
     \<lparr>promptsDirectory = ''prompts'', variableDefinitions = 0, enableCaching = None,
      promptFileExtensions = None\<rparr>"

definition demo_engine :: TemplateEngine where
  "demo_engine =
     \<lparr>variableDefinitions = \<lparr>variableMap = 0\<rparr>, config = demo_config, initialized = True\<rparr>"

definition demo_cache :: PromptCache where
  "demo_cache =
     \<lparr>cache = [(''t.txt'', ''{{x}} and {{x}}''), (''n.txt'', ''plain''),
               (''r.txt'', ''Hello {{x}}, you are a {{role}}.'')],
      initialized = True, promptsDirectory = ''prompts'',
      promptFileExtensions = [''.txt'', ''.md'', ''.prompt'']\<rparr>"

definition lax_options :: ProcessingOptions where
  "lax_options = \<lparr>strictMode = Some False, validateVariables = None, variablePattern = None\<rparr>"

definition demo_node :: Platform where
  "demo_node =
     \<lparr>path_join = (\<lambda>dir file. dir @ ''/'' @ file),
      readFile = (\<lambda>path. if path = ''prompts/Q.txt'' then Inr ''Ask {{q}}''
                         else Inl ''Error: ENOENT: no such file or directory'')\<rparr>"

section \<open>Properties\<close>

subsection \<open>Maps, the heap and the loops\<close>

lemmas eval_defs =
  demo_heap_def demo_config_def demo_engine_def demo_cache_def lax_options_def no_options_def
  processTemplate_def resolveArguments_def readPromptFile_def getPrompt_def
  findUniqueVariablesRequired_def default_variablePattern_def match_here_def isLineTerminator_def
  new_Set_def Set_add_def combineVariables_def getVariableMap_def new_Map_def Map_entries_def
  VariableDefinitions_new_def setVariables_def Map_set_def validateVariablesWithMap_def
  hasVariable_def Map_has_def getVariable_def Map_get_def replaceAll_def collectUndefined_def
  getVariableNames_def Let_def

lemma update_fresh: "k \<notin> fst ` set al \<Longrightarrow> AList.update k v al = al @ [(k, v)]"
  by (induction al) auto

lemma fold_update_distinct:
  "distinct (map fst (acc @ es)) \<Longrightarrow> fold (\<lambda>(k, v). AList.update k v) es acc = acc @ es"
proof (induction es arbitrary: acc)
  case Nil
  then show ?case by simp
next
  case (Cons e es)
  obtain k v where e: "e = (k, v)" by (cases e)
  from Cons.prems e have fresh: "k \<notin> fst ` set acc" by auto
  from Cons.prems e have "distinct (map fst ((acc @ [(k, v)]) @ es))" by simp
  from Cons.IH[OF this] fresh e show ?case by (simp add: update_fresh)
qed

lemma Map_entries_copy: "distinct (map fst es) \<Longrightarrow> Map_entries es = es"
  using fold_update_distinct[of "[]" es] by (simp add: Map_entries_def)

lemma map_of_fold_update:
  "distinct (map fst es) \<Longrightarrow>
   map_of (fold (\<lambda>(k, v). AList.update k v) es acc) x =
     (case map_of es x of Some y \<Rightarrow> Some y | None \<Rightarrow> map_of acc x)"
proof (induction es arbitrary: acc)
  case Nil
  then show ?case by simp
next
  case (Cons e es)
  obtain k v where e: "e = (k, v)" by (cases e)
  from Cons.prems e have k: "map_of es k = None" and d: "distinct (map fst es)"
    by (auto simp: map_of_eq_None_iff)
  show ?case
    using Cons.IH[OF d, of "AList.update k v acc"] e k
    by (auto simp: update_conv' split: option.splits)
qed

lemma fold_Map_set_cells:
  "cells (fold (\<lambda>(k, v). Map_set r k v) es h) =
     (cells h)(r := fold (\<lambda>(k, v). AList.update k v) es (cells h r))"
  by (induction es arbitrary: h) (auto simp: Map_set_def)

lemma fold_Map_set_next_ref:
  "next_ref (fold (\<lambda>(k, v). Map_set r k v) es h) = next_ref h"
  by (induction es arbitrary: h) (auto simp: Map_set_def)

lemma combineVariables_fst:
  "fst (combineVariables this ovr h) = \<lparr>variableMap = combined_ref h\<rparr>"
  by (cases ovr) (simp_all add: combineVariables_def getVariableMap_def VariableDefinitions_new_def
      new_Map_def combined_ref_def Let_def)

lemma combineVariables_next_ref:
  "next_ref (snd (combineVariables this ovr h)) = Suc (Suc (Suc (next_ref h)))"
  by (cases ovr) (simp_all add: combineVariables_def getVariableMap_def VariableDefinitions_new_def
      new_Map_def setVariables_def fold_Map_set_next_ref Let_def)

lemma combineVariables_frame:
  "q < next_ref h \<Longrightarrow> cells (snd (combineVariables this ovr h)) q = cells h q"
  by (cases ovr) (simp_all add: combineVariables_def getVariableMap_def VariableDefinitions_new_def
      new_Map_def setVariables_def fold_Map_set_cells Let_def)

lemma combineVariables_cells:
  "case ovr of None \<Rightarrow> True | Some ov \<Rightarrow> ov < next_ref h \<Longrightarrow>
   cells (snd (combineVariables this ovr h)) (combined_ref h) =
     fold (\<lambda>(k, v). AList.update k v)
       (case ovr of None \<Rightarrow> [] | Some ov \<Rightarrow> cells h ov)
       (Map_entries (Map_entries (cells h (variableMap (variableDefinitions this)))))"
  by (cases ovr) (simp_all add: combineVariables_def getVariableMap_def VariableDefinitions_new_def
      new_Map_def setVariables_def fold_Map_set_cells combined_ref_def Let_def)

lemma getVariable_combined:
  assumes "maps_allocated this ovr h"
  shows "getVariable (fst (combineVariables this ovr h)) (snd (combineVariables this ovr h)) k =
         mergedMapping this ovr h k"
proof -
  let ?b = "cells h (variableMap (variableDefinitions this))"
  from assms have d: "distinct (map fst ?b)" by (simp add: maps_allocated_def)
  then have copy: "Map_entries (Map_entries ?b) = ?b" by (simp add: Map_entries_copy)
  show ?thesis
  proof (cases ovr)
    case None
    then show ?thesis
      using combineVariables_cells[where ovr=ovr and h=h and this=this] copy
      by (simp add: getVariable_def Map_get_def combineVariables_fst mergedMapping_def)
  next
    case (Some ov)
    with assms have ov: "ov < next_ref h" "distinct (map fst (cells h ov))"
      by (simp_all add: maps_allocated_def)
    from Some ov(1) have
      "cells (snd (combineVariables this ovr h)) (combined_ref h) =
         fold (\<lambda>(k, v). AList.update k v) (cells h ov) ?b"
      using combineVariables_cells[where ovr=ovr and h=h and this=this] copy by simp
    then show ?thesis
      using Some map_of_fold_update[OF ov(2), of ?b k]
      by (simp add: getVariable_def Map_get_def combineVariables_fst mergedMapping_def
          map_add_def)
  qed
qed

lemma hasVariable_iff: "hasVariable v h k \<longleftrightarrow> getVariable v h k \<noteq> None"
  by (simp add: hasVariable_def getVariable_def Map_has_def Map_get_def map_of_eq_None_iff)

lemma Set_add_set: "set (Set_add x s) = insert x (set s)"
  by (auto simp: Set_add_def)

lemma collectUndefined_fields:
  "processedTemplate (collectUndefined cv h vs r) = processedTemplate r \<and>
   variablesFound (collectUndefined cv h vs r) = variablesFound r \<and>
   variablesReplaced (collectUndefined cv h vs r) = variablesReplaced r \<and>
   set (undefinedVariables (collectUndefined cv h vs r)) =
     set (undefinedVariables r) \<union> {v \<in> set vs. getVariable cv h v = None}"
  unfolding collectUndefined_def
  by (induction vs arbitrary: r) (auto simp: hasVariable_iff Set_add_set)

lemma replaceVariables_fields:
  "replaceVariables cv h vs (t, r) = (t', r') \<Longrightarrow>
   t' = substituteAll (getVariable cv h) vs t \<and>
   processedTemplate r' = processedTemplate r \<and>
   variablesFound r' = variablesFound r \<and>
   set (variablesReplaced r') = set (variablesReplaced r) \<union> {v \<in> set vs. getVariable cv h v \<noteq> None} \<and>
   set (undefinedVariables r') = set (undefinedVariables r) \<union> {v \<in> set vs. getVariable cv h v = None}"
proof (induction vs arbitrary: t r)
  case Nil
  then show ?case by (simp add: substituteAll_def)
next
  case (Cons v vs)
  show ?case
  proof (cases "getVariable cv h v")
    case None
    with Cons.prems have
      "replaceVariables cv h vs (t, r\<lparr>undefinedVariables := Set_add v (undefinedVariables r)\<rparr>) = (t', r')"
      by simp
    from Cons.IH[OF this] None show ?thesis
      by (auto simp: substituteAll_def Set_add_set)
  next
    case (Some val)
    with Cons.prems have
      "replaceVariables cv h vs
         (replaceAll t v val, r\<lparr>variablesReplaced := Set_add v (variablesReplaced r)\<rparr>) = (t', r')"
      by simp
    from Cons.IH[OF this] Some show ?thesis
      by (auto simp: substituteAll_def Set_add_set)
  qed
qed

lemma processTemplate_reached:
  assumes "TemplateEngine.initialized this"
    and "getPrompt promptCache promptFileName = Inr text"
    and "resolveArguments a2 a3 = (ovr, opts)"
    and "findUniqueVariablesRequired text opts = Inr found"
  shows "processTemplate this promptCache h promptFileName a2 a3 =
     (let combinedVariables = fst (combineVariables this ovr h);
          h' = snd (combineVariables this ovr h);
          result = \<lparr>processedTemplate = text, variablesFound = found,
                    variablesReplaced = [], undefinedVariables = []\<rparr>
      in if found = [] then
           (if strictMode opts \<noteq> Some False then
              (Inl \<lparr>errorType = VALIDATION_ERROR,
                    message = ''No variables found in the prompt file.''\<rparr>, this, h')
            else (Inr result, this, h'))
         else
           (case (if validateVariables opts \<noteq> Some False then
                    (case validateVariablesWithMap found combinedVariables h' of
                       Inl err \<Rightarrow>
                         (if strictMode opts \<noteq> Some False then Inl err
                          else Inr (collectUndefined combinedVariables h' found result))
                     | Inr ok \<Rightarrow> Inr result)
                  else Inr result) of
              Inl err \<Rightarrow> (Inl err, this, h')
            | Inr result1 \<Rightarrow>
                (Inr ((snd (replaceVariables combinedVariables h' found (text, result1)))
                       \<lparr>processedTemplate :=
                          fst (replaceVariables combinedVariables h' found (text, result1))\<rparr>),
                 this, h')))"
  using assms
  by (simp add: processTemplate_def readPromptFile_def Let_def split_beta split: sum.splits)

lemma validateVariablesWithMap_cases:
  "found \<noteq> [] \<Longrightarrow>
   validateVariablesWithMap found cv h =
     (if \<exists>v \<in> set found. getVariable cv h v = None then
        Inl \<lparr>errorType = VARIABLE_NOT_DEFINED,
             message = ''Variables not defined: '' @
               join '', '' (filter (\<lambda>variable. \<not> hasVariable cv h variable) found) @
               ''. Available variables: '' @ join '', '' (getVariableNames cv h)\<rparr>
      else Inr True)"
  by (auto simp: validateVariablesWithMap_def Let_def filter_empty_conv hasVariable_iff)

lemma processTemplate_Inr_reached:
  assumes "fst (processTemplate this promptCache h promptFileName a2 a3) = Inr r"
  shows "TemplateEngine.initialized this \<and>
         (\<exists>text found. getPrompt promptCache promptFileName = Inr text \<and>
            findUniqueVariablesRequired text (snd (resolveArguments a2 a3)) = Inr found)"
  using assms
  by (auto simp: processTemplate_def readPromptFile_def Let_def split_beta
      split: if_splits sum.splits)

lemma processTemplate_result:
  assumes init: "TemplateEngine.initialized this"
    and prompt: "getPrompt promptCache promptFileName = Inr text"
    and args: "resolveArguments a2 a3 = (ovr, opts)"
    and found: "findUniqueVariablesRequired text opts = Inr found"
    and ne: "found \<noteq> []"
    and res: "fst (processTemplate this promptCache h promptFileName a2 a3) = Inr r"
  shows "variablesFound r = found \<and>
         set (variablesReplaced r) =
           {v \<in> set found. getVariable (fst (combineVariables this ovr h))
                               (snd (combineVariables this ovr h)) v \<noteq> None} \<and>
         set (undefinedVariables r) =
           {v \<in> set found. getVariable (fst (combineVariables this ovr h))
                               (snd (combineVariables this ovr h)) v = None} \<and>
         processedTemplate r =
           substituteAll (getVariable (fst (combineVariables this ovr h))
                            (snd (combineVariables this ovr h))) found text"
proof -
  let ?cv = "fst (combineVariables this ovr h)"
  let ?h = "snd (combineVariables this ovr h)"
  let ?result = "\<lparr>processedTemplate = text, variablesFound = found,
                    variablesReplaced = [], undefinedVariables = []\<rparr>"
  define V where "V =
     (if validateVariables opts \<noteq> Some False then
        (case validateVariablesWithMap found ?cv ?h of
           Inl err \<Rightarrow>
             (if strictMode opts \<noteq> Some False then Inl err
              else Inr (collectUndefined ?cv ?h found ?result))
         | Inr ok \<Rightarrow> Inr ?result)
      else Inr ?result)"
  have pt: "fst (processTemplate this promptCache h promptFileName a2 a3) =
      (case V of
         Inl err \<Rightarrow> Inl err
       | Inr result1 \<Rightarrow>
           Inr ((snd (replaceVariables ?cv ?h found (text, result1)))
                  \<lparr>processedTemplate := fst (replaceVariables ?cv ?h found (text, result1))\<rparr>))"
    unfolding V_def using processTemplate_reached[OF init prompt args found, of h] ne
    by (simp add: Let_def split: sum.splits)
  from pt res obtain result1 where v: "V = Inr result1"
    and r: "r = (snd (replaceVariables ?cv ?h found (text, result1)))
                  \<lparr>processedTemplate := fst (replaceVariables ?cv ?h found (text, result1))\<rparr>"
    by (cases V) auto
  from v have r1: "result1 = ?result \<or> result1 = collectUndefined ?cv ?h found ?result"
    unfolding V_def by (auto split: if_splits sum.splits)
  obtain t' r' where rv: "replaceVariables ?cv ?h found (text, result1) = (t', r')"
    by (cases "replaceVariables ?cv ?h found (text, result1)")
  have start: "variablesFound result1 = found \<and> variablesReplaced result1 = [] \<and>
    set (undefinedVariables result1) \<subseteq> {v \<in> set found. getVariable ?cv ?h v = None}"
  proof (cases "result1 = ?result")
    case True
    then show ?thesis by simp
  next
    case False
    with r1 have "result1 = collectUndefined ?cv ?h found ?result" by simp
    then show ?thesis using collectUndefined_fields[of ?cv ?h found ?result] by simp
  qed
  from replaceVariables_fields[OF rv] start r rv show ?thesis by auto
qed

lemma processTemplate_engine:
  "fst (snd (processTemplate this promptCache h promptFileName a2 a3)) = this"
  by (simp add: processTemplate_def Let_def split_beta split: sum.splits)

lemma processTemplate_heap:
  "snd (snd (processTemplate this promptCache h promptFileName a2 a3)) = h \<or>
   snd (snd (processTemplate this promptCache h promptFileName a2 a3)) =
     snd (combineVariables this (fst (resolveArguments a2 a3)) h)"
  by (simp add: processTemplate_def Let_def split_beta split: sum.splits)

lemma processTemplate_frame:
  assumes "q < next_ref h"
  shows "cells (snd (snd (processTemplate this promptCache h promptFileName a2 a3))) q = cells h q"
  using processTemplate_heap[of this promptCache h promptFileName a2 a3]
    combineVariables_frame[OF assms, of this "fst (resolveArguments a2 a3)"]
  by auto

lemma GetSubstitution_plain:
  "CHR ''$'' \<notin> set val \<Longrightarrow> GetSubstitution matched str position val = val"
  by (induction matched str position val rule: GetSubstitution.induct) auto

lemma replaceAll_from_skip:
  "k \<le> length s \<Longrightarrow>
   replaceAll_from tok val str k position s = replaceAll_from tok val str 0 (position + k) (drop k s)"
proof (induction k arbitrary: s position)
  case 0
  then show ?case by simp
next
  case (Suc k)
  then obtain c rest where s: "s = c # rest" by (cases s) auto
  with Suc.prems have "k \<le> length rest" by simp
  from Suc.IH[OF this, of "Suc position"] s show ?case by simp
qed

lemma replaceAll_from_no_match:
  assumes "tok \<noteq> []" and "\<forall>i. \<not> prefix tok (drop i s)"
  shows "replaceAll_from tok val str 0 position s = s"
  using assms(2)
proof (induction s arbitrary: position)
  case Nil
  with assms(1) show ?case by simp
next
  case (Cons c rest)
  from Cons.prems have here: "\<not> prefix tok (c # rest)"
    by (metis drop0)
  have "\<forall>i. \<not> prefix tok (drop i rest)"
  proof
    fix i from Cons.prems have "\<not> prefix tok (drop (Suc i) (c # rest))" by blast
    then show "\<not> prefix tok (drop i rest)" by simp
  qed
  from Cons.IH[OF this] here assms(1) show ?case by simp
qed

lemma replaceAll_from_first_match:
  assumes plain: "CHR ''$'' \<notin> set val" and tok: "tok \<noteq> []"
    and first: "\<forall>i<length p. \<not> prefix tok (drop i (p @ tok @ rest))"
  shows "replaceAll_from tok val str 0 position (p @ tok @ rest) =
         p @ val @ replaceAll_from tok val str 0 (position + length p + length tok) rest"
  using first
proof (induction p arbitrary: position)
  case Nil
  from tok obtain c t where ct: "tok = c # t" by (cases tok) auto
  have "replaceAll_from tok val str 0 position (c # t @ rest) =
        val @ replaceAll_from tok val str (length t) (Suc position) (t @ rest)"
    using ct by (simp add: GetSubstitution_plain[OF plain])
  also have "replaceAll_from tok val str (length t) (Suc position) (t @ rest) =
        replaceAll_from tok val str 0 (Suc position + length t) rest"
    using replaceAll_from_skip[of "length t" "t @ rest" tok val str "Suc position"] by simp
  finally show ?case using ct by simp
next
  case (Cons c p)
  from Cons.prems have here: "\<not> prefix tok (c # p @ tok @ rest)"
    by (metis append_Cons drop0 length_greater_0_conv list.distinct(1))
  have "\<forall>i<length p. \<not> prefix tok (drop i (p @ tok @ rest))"
  proof (intro allI impI)
    fix i assume "i < length p"
    with Cons.prems have "\<not> prefix tok (drop (Suc i) ((c # p) @ tok @ rest))" by auto
    then show "\<not> prefix tok (drop i (p @ tok @ rest))" by simp
  qed
  from Cons.IH[OF this, of "Suc position"] here tok show ?case by simp
qed

lemma replaceAll_from_plain:
  assumes plain: "CHR ''$'' \<notin> set val"
  shows "replaceAll_from tok val str k position s = replaceAll_from tok val str' k position' s"
proof (induction s arbitrary: k position position')
  case Nil
  then show ?case by (simp add: GetSubstitution_plain[OF plain])
next
  case (Cons c rest)
  show ?case
  proof (cases k)
    case 0
    with Cons.IH[of 0 "Suc position" "Suc position'"]
      Cons.IH[of "length tok - 1" "Suc position" "Suc position'"]
    show ?thesis by (auto simp: GetSubstitution_plain[OF plain])
  next
    case (Suc j)
    with Cons.IH[of j "Suc position" "Suc position'"] show ?thesis by simp
  qed
qed

subsection \<open>Undefined variables\<close>

text \<open>
  Claim C1 says that, with \<open>validateVariables\<close> enabled and a discovered token without
  an entry in the merged mapping, a call with \<open>strictMode\<close> disabled records the missing
  tokens and substitutes the defined ones. The code does not do this for the call
  \<^verbatim>\<open>processTemplate('r.txt', undefined, {strictMode: false})\<close>: lines 143 to 149 read
  the third argument only when the second one is a map, so the options are dropped, the
  call runs in strict mode and fails with \<open>VARIABLE_NOT_DEFINED\<close>.
\<close>

theorem processTemplate_undefined_variables_dropped_options:
  "getPrompt demo_cache ''r.txt'' = Inr ''Hello {{x}}, you are a {{role}}.'' \<and>
   findUniqueVariablesRequired ''Hello {{x}}, you are a {{role}}.'' lax_options =
     Inr [''{{x}}'', ''{{role}}''] \<and>
   mergedMapping demo_engine None demo_heap ''{{role}}'' = None \<and>
   strictMode lax_options = Some False \<and>
   fst (processTemplate demo_engine demo_cache demo_heap ''r.txt'' IsUndefined (Some lax_options)) =
     Inl \<lparr>errorType = VARIABLE_NOT_DEFINED,
          message = ''Variables not defined: {{role}}. Available variables: {{x}}''\<rparr>"
  by (simp add: eval_defs mergedMapping_def)

text \<open>
  Property X4. What the code does on the options it resolves (\<open>resolveArguments\<close>: the
  third argument after a map of overrides, else the second argument if it is a record of
  options, else none). The engine is initialized, the store holds the template, its
  token set is not empty, \<open>validateVariables\<close> is not switched off in the resolved
  options and a discovered token has no entry in the merged mapping. If the resolved
  \<open>strictMode\<close> is not \<open>false\<close>, \<open>processTemplate\<close> fails with \<open>VARIABLE_NOT_DEFINED\<close>.
  If it is \<open>false\<close>, the call returns a result whose \<open>undefinedVariables\<close> are the
  discovered tokens without an entry, whose \<open>variablesReplaced\<close> are the discovered
  tokens with an entry, and whose text is the template after the replacement loop.
\<close>

theorem processTemplate_undefined_variables:
  assumes init: "TemplateEngine.initialized this"
    and prompt: "getPrompt promptCache promptFileName = Inr text"
    and args: "resolveArguments a2 a3 = (ovr, opts)"
    and found: "findUniqueVariablesRequired text opts = Inr found"
    and ne: "found \<noteq> []"
    and val: "validateVariables opts \<noteq> Some False"
    and wf: "maps_allocated this ovr h"
    and missing: "v \<in> set found" "mergedMapping this ovr h v = None"
  shows "(strictMode opts \<noteq> Some False \<longrightarrow>
            (\<exists>err. fst (processTemplate this promptCache h promptFileName a2 a3) = Inl err \<and>
                   errorType err = VARIABLE_NOT_DEFINED)) \<and>
         (strictMode opts = Some False \<longrightarrow>
            (\<exists>r. fst (processTemplate this promptCache h promptFileName a2 a3) = Inr r \<and>
                 set (undefinedVariables r) = {u \<in> set found. mergedMapping this ovr h u = None} \<and>
                 set (variablesReplaced r) = {u \<in> set found. mergedMapping this ovr h u \<noteq> None} \<and>
                 processedTemplate r = substituteAll (mergedMapping this ovr h) found text))"
proof -
  let ?cv = "fst (combineVariables this ovr h)"
  let ?h = "snd (combineVariables this ovr h)"
  let ?result = "\<lparr>processedTemplate = text, variablesFound = found,
                    variablesReplaced = [], undefinedVariables = []\<rparr>"
  have look: "getVariable ?cv ?h = mergedMapping this ovr h"
    using getVariable_combined[OF wf] by (rule ext)
  from missing have ex: "\<exists>u \<in> set found. getVariable ?cv ?h u = None"
    unfolding look by blast
  have invalid: "validateVariablesWithMap found ?cv ?h =
      Inl \<lparr>errorType = VARIABLE_NOT_DEFINED,
           message = ''Variables not defined: '' @
             join '', '' (filter (\<lambda>variable. \<not> hasVariable ?cv ?h variable) found) @
             ''. Available variables: '' @ join '', '' (getVariableNames ?cv ?h)\<rparr>"
    using validateVariablesWithMap_cases[OF ne, of ?cv ?h] ex by simp
  have strict: "strictMode opts \<noteq> Some False \<Longrightarrow> ?thesis"
    using processTemplate_reached[OF init prompt args found, of h] ne val invalid
    by (simp add: Let_def)
  have lax: ?thesis if off: "strictMode opts = Some False"
  proof -
    obtain t' r' where rv:
      "replaceVariables ?cv ?h found (text, collectUndefined ?cv ?h found ?result) = (t', r')"
      by (cases "replaceVariables ?cv ?h found (text, collectUndefined ?cv ?h found ?result)")
    have res: "fst (processTemplate this promptCache h promptFileName a2 a3) =
        Inr (r'\<lparr>processedTemplate := t'\<rparr>)"
      using processTemplate_reached[OF init prompt args found, of h] ne val invalid off rv
      by (simp add: Let_def)
    from replaceVariables_fields[OF rv] collectUndefined_fields[of ?cv ?h found ?result]
    have "t' = substituteAll (mergedMapping this ovr h) found text"
      and "set (variablesReplaced r') = {u \<in> set found. mergedMapping this ovr h u \<noteq> None}"
      and "set (undefinedVariables r') = {u \<in> set found. mergedMapping this ovr h u = None}"
      unfolding look by auto
    with res off show ?thesis by simp
  qed
  show ?thesis using strict lax by blast
qed

theorem processTemplate_undefined_variables_witness:
  "TemplateEngine.initialized demo_engine \<and>
   getPrompt demo_cache ''r.txt'' = Inr ''Hello {{x}}, you are a {{role}}.'' \<and>
   resolveArguments (IsOptions lax_options) None = (None, lax_options) \<and>
   resolveArguments IsUndefined None = (None, no_options) \<and>
   findUniqueVariablesRequired ''Hello {{x}}, you are a {{role}}.'' lax_options =
     Inr [''{{x}}'', ''{{role}}''] \<and>
   validateVariables lax_options \<noteq> Some False \<and>
   maps_allocated demo_engine None demo_heap \<and>
   mergedMapping demo_engine None demo_heap ''{{role}}'' = None \<and>
   (\<exists>err. fst (processTemplate demo_engine demo_cache demo_heap ''r.txt'' IsUndefined None) = Inl err \<and>
          errorType err = VARIABLE_NOT_DEFINED) \<and>
   (\<exists>r. fst (processTemplate demo_engine demo_cache demo_heap ''r.txt'' (IsOptions lax_options) None) = Inr r \<and>
        set (undefinedVariables r) = {''{{role}}''} \<and>
        set (variablesReplaced r) = {''{{x}}''} \<and>
        processedTemplate r = ''Hello a, you are a {{role}}.'')"
proof -
  have h1: "TemplateEngine.initialized demo_engine" by (simp add: demo_engine_def)
  have h2: "getPrompt demo_cache ''r.txt'' = Inr ''Hello {{x}}, you are a {{role}}.''"
    by (simp add: getPrompt_def demo_cache_def)
  have h3: "resolveArguments (IsOptions lax_options) None = (None, lax_options)"
    by (simp add: resolveArguments_def)
  have h3': "resolveArguments IsUndefined None = (None, no_options)"
    by (simp add: resolveArguments_def)
  have h4: "findUniqueVariablesRequired ''Hello {{x}}, you are a {{role}}.'' lax_options =
     Inr [''{{x}}'', ''{{role}}'']"
    by (simp add: eval_defs)
  have h4': "findUniqueVariablesRequired ''Hello {{x}}, you are a {{role}}.'' no_options =
     Inr [''{{x}}'', ''{{role}}'']"
    by (simp add: eval_defs)
  have h5: "[''{{x}}'', ''{{role}}''] \<noteq> []" by simp
  have h6: "validateVariables lax_options \<noteq> Some False" by (simp add: lax_options_def)
  have h6': "validateVariables no_options \<noteq> Some False" by (simp add: no_options_def)
  have h7: "maps_allocated demo_engine None demo_heap"
    by (simp add: maps_allocated_def demo_engine_def demo_heap_def)
  have h8: "''{{role}}'' \<in> set [''{{x}}'', ''{{role}}'']" by simp
  have h9: "mergedMapping demo_engine None demo_heap ''{{role}}'' = None"
    by (simp add: mergedMapping_def demo_engine_def demo_heap_def)
  have m: "mergedMapping demo_engine None demo_heap = [''{{x}}'' \<mapsto> ''a'']"
    by (rule ext) (simp add: mergedMapping_def demo_engine_def demo_heap_def)
  have s: "strictMode lax_options = Some False" "strictMode no_options \<noteq> Some False"
    by (simp_all add: lax_options_def no_options_def)
  have sub: "substituteAll [''{{x}}'' \<mapsto> ''a''] [''{{x}}'', ''{{role}}'']
       ''Hello {{x}}, you are a {{role}}.'' = ''Hello a, you are a {{role}}.''"
    by (simp add: substituteAll_def replaceAll_def)
  have sets: "{u \<in> set [''{{x}}'', ''{{role}}'']. [''{{x}}'' \<mapsto> ''a''] u = None} = {''{{role}}''}"
    "{u \<in> set [''{{x}}'', ''{{role}}'']. [''{{x}}'' \<mapsto> ''a''] u \<noteq> None} = {''{{x}}''}"
    by auto
  from processTemplate_undefined_variables[OF h1 h2 h3 h4 h5 h6 h7 h8 h9] s(1)
  have lax: "\<exists>r. fst (processTemplate demo_engine demo_cache demo_heap ''r.txt'' (IsOptions lax_options) None) = Inr r \<and>
        set (undefinedVariables r) = {''{{role}}''} \<and>
        set (variablesReplaced r) = {''{{x}}''} \<and>
        processedTemplate r = ''Hello a, you are a {{role}}.''"
    unfolding m sub sets by simp
  from processTemplate_undefined_variables[OF h1 h2 h3' h4' h5 h6' h7 h8 h9] s(2)
  have strict: "\<exists>err. fst (processTemplate demo_engine demo_cache demo_heap ''r.txt'' IsUndefined None) = Inl err \<and>
          errorType err = VARIABLE_NOT_DEFINED"
    by simp
  show ?thesis using h1 h2 h3 h3' h4 h6 h7 h9 lax strict by simp
qed

subsection \<open>The three sets of a result\<close>

text \<open>
  Claim C2. Whenever \<open>processTemplate\<close> returns a result with a token set that is not
  empty (the substitution step was reached), \<open>variablesReplaced\<close> and
  \<open>undefinedVariables\<close> are disjoint and their union is \<open>variablesFound\<close>.
\<close>

theorem processTemplate_partition:
  assumes "fst (processTemplate this promptCache h promptFileName a2 a3) = Inr r"
    and "variablesFound r \<noteq> []"
  shows "set (variablesReplaced r) \<inter> set (undefinedVariables r) = {} \<and>
         set (variablesReplaced r) \<union> set (undefinedVariables r) = set (variablesFound r)"
proof -
  from processTemplate_Inr_reached[OF assms(1)] obtain template found where
    init: "TemplateEngine.initialized this" and
    prompt: "getPrompt promptCache promptFileName = Inr template" and
    found: "findUniqueVariablesRequired template (snd (resolveArguments a2 a3)) = Inr found"
    by blast
  have args: "resolveArguments a2 a3 = (fst (resolveArguments a2 a3), snd (resolveArguments a2 a3))"
    by simp
  have ne: "found \<noteq> []"
  proof
    assume "found = []"
    with processTemplate_reached[OF init prompt args found, of h] assms show False
      by (auto simp: Let_def split: if_splits)
  qed
  from processTemplate_result[OF init prompt args found ne assms(1)] show ?thesis by auto
qed

theorem processTemplate_partition_witness:
  "fst (processTemplate demo_engine demo_cache demo_heap ''r.txt'' (IsOptions lax_options) None) =
     Inr \<lparr>processedTemplate = ''Hello a, you are a {{role}}.'',
          variablesFound = [''{{x}}'', ''{{role}}''],
          variablesReplaced = [''{{x}}''], undefinedVariables = [''{{role}}'']\<rparr> \<and>
   set [''{{x}}''] \<inter> set [''{{role}}''] = {} \<and>
   set [''{{x}}''] \<union> set [''{{role}}''] = set [''{{x}}'', ''{{role}}'']"
proof -
  have run: "fst (processTemplate demo_engine demo_cache demo_heap ''r.txt'' (IsOptions lax_options) None) =
     Inr \<lparr>processedTemplate = ''Hello a, you are a {{role}}.'',
          variablesFound = [''{{x}}'', ''{{role}}''],
          variablesReplaced = [''{{x}}''], undefinedVariables = [''{{role}}'']\<rparr>"
    by (simp add: eval_defs)
  from processTemplate_partition[OF run] run show ?thesis by simp
qed

subsection \<open>Templates without tokens\<close>

text \<open>
  Claim C3 says that a call with \<open>strictMode\<close> disabled on a template without tokens
  returns the text unchanged and three empty sets. The code does not do this for the
  call \<^verbatim>\<open>processTemplate('n.txt', undefined, {strictMode: false})\<close>: lines 143 to 149
  read the third argument only when the second one is a map, so the options are
  dropped, the call runs in strict mode and fails with \<open>VALIDATION_ERROR\<close>.
\<close>

theorem processTemplate_no_variables_dropped_options:
  "getPrompt demo_cache ''n.txt'' = Inr ''plain'' \<and>
   findUniqueVariablesRequired ''plain'' lax_options = Inr [] \<and>
   strictMode lax_options = Some False \<and>
   fst (processTemplate demo_engine demo_cache demo_heap ''n.txt'' IsUndefined (Some lax_options)) =
     Inl \<lparr>errorType = VALIDATION_ERROR, message = ''No variables found in the prompt file.''\<rparr>"
  by (simp add: eval_defs)

text \<open>
  Property X5. What the code does on the options it resolves (\<open>resolveArguments\<close>). The
  engine is initialized, the store holds the template and the scan finds no token. If
  the resolved \<open>strictMode\<close> is not \<open>false\<close> (the default), \<open>processTemplate\<close> fails with
  \<open>VALIDATION_ERROR\<close>; if it is \<open>false\<close>, the call returns the text unchanged and three
  empty sets.
\<close>

theorem processTemplate_no_variables:
  assumes init: "TemplateEngine.initialized this"
    and prompt: "getPrompt promptCache promptFileName = Inr text"
    and args: "resolveArguments a2 a3 = (ovr, opts)"
    and found: "findUniqueVariablesRequired text opts = Inr []"
  shows "(strictMode opts \<noteq> Some False \<longrightarrow>
            (\<exists>err. fst (processTemplate this promptCache h promptFileName a2 a3) = Inl err \<and>
                   errorType err = VALIDATION_ERROR)) \<and>
         (strictMode opts = Some False \<longrightarrow>
            fst (processTemplate this promptCache h promptFileName a2 a3) =
              Inr \<lparr>processedTemplate = text, variablesFound = [],
                   variablesReplaced = [], undefinedVariables = []\<rparr>)"
  using processTemplate_reached[OF init prompt args found, of h]
  by (simp add: Let_def)

theorem processTemplate_no_variables_witness:
  "TemplateEngine.initialized demo_engine \<and>
   getPrompt demo_cache ''n.txt'' = Inr ''plain'' \<and>
   resolveArguments IsUndefined None = (None, no_options) \<and>
   resolveArguments (IsOptions lax_options) None = (None, lax_options) \<and>
   findUniqueVariablesRequired ''plain'' no_options = Inr [] \<and>
   findUniqueVariablesRequired ''plain'' lax_options = Inr [] \<and>
   strictMode no_options \<noteq> Some False \<and>
   strictMode lax_options = Some False \<and>
   (\<exists>err. fst (processTemplate demo_engine demo_cache demo_heap ''n.txt'' IsUndefined None) = Inl err \<and>
          errorType err = VALIDATION_ERROR) \<and>
   fst (processTemplate demo_engine demo_cache demo_heap ''n.txt'' (IsOptions lax_options) None) =
     Inr \<lparr>processedTemplate = ''plain'', variablesFound = [],
          variablesReplaced = [], undefinedVariables = []\<rparr>"
proof -
  have h1: "TemplateEngine.initialized demo_engine" by (simp add: demo_engine_def)
  have h2: "getPrompt demo_cache ''n.txt'' = Inr ''plain''"
    by (simp add: getPrompt_def demo_cache_def)
  have h3: "resolveArguments IsUndefined None = (None, no_options)"
    and h3': "resolveArguments (IsOptions lax_options) None = (None, lax_options)"
    by (simp_all add: resolveArguments_def)
  have h4: "findUniqueVariablesRequired ''plain'' no_options = Inr []"
    and h4': "findUniqueVariablesRequired ''plain'' lax_options = Inr []"
    by (simp_all add: eval_defs)
  have s: "strictMode no_options \<noteq> Some False" "strictMode lax_options = Some False"
    by (simp_all add: no_options_def lax_options_def)
  from processTemplate_no_variables[OF h1 h2 h3 h4, of demo_heap] processTemplate_no_variables[OF h1 h2 h3' h4', of demo_heap] s h1 h2 h3 h3' h4 h4'
  show ?thesis by simp
qed

subsection \<open>Overrides and the stored baseline\<close>

text \<open>
  Claim C5. For a call with a map of overrides: the text of the result is the
  substitution under the lookup that asks the override first and the baseline only for
  the keys the override lacks, every discovered token the override defines is replaced,
  and after the call the map of the baseline (and the map of the override) holds the
  entries it held before and the engine is the same.
\<close>

theorem processTemplate_override_precedence:
  assumes init: "TemplateEngine.initialized this"
    and prompt: "getPrompt promptCache promptFileName = Inr text"
    and found: "findUniqueVariablesRequired text (snd (resolveArguments (IsMap ov) a3)) = Inr found"
    and wf: "maps_allocated this (Some ov) h"
    and call: "processTemplate this promptCache h promptFileName (IsMap ov) a3 = (outcome, this', h')"
  shows "cells h' (variableMap (variableDefinitions this)) =
           cells h (variableMap (variableDefinitions this)) \<and>
         cells h' ov = cells h ov \<and>
         this' = this \<and>
         (\<forall>r. outcome = Inr r \<longrightarrow>
            processedTemplate r =
              substituteAll
                (\<lambda>v. case map_of (cells h ov) v of
                       Some b \<Rightarrow> Some b
                     | None \<Rightarrow> map_of (cells h (variableMap (variableDefinitions this))) v)
                found text \<and>
            (\<forall>v \<in> set found. v \<in> fst ` set (cells h ov) \<longrightarrow> v \<in> set (variablesReplaced r)))"
proof -
  let ?base = "variableMap (variableDefinitions this)"
  let ?look = "\<lambda>v. case map_of (cells h ov) v of
                       Some b \<Rightarrow> Some b
                     | None \<Rightarrow> map_of (cells h ?base) v"
  from wf have alloc: "?base < next_ref h" "ov < next_ref h"
    by (simp_all add: maps_allocated_def)
  have args: "resolveArguments (IsMap ov) a3 = (Some ov, snd (resolveArguments (IsMap ov) a3))"
    by (simp add: resolveArguments_def)
  have merged: "mergedMapping this (Some ov) h = ?look"
    by (rule ext) (simp add: mergedMapping_def map_add_def)
  have look: "getVariable (fst (combineVariables this (Some ov) h))
      (snd (combineVariables this (Some ov) h)) = ?look"
    using getVariable_combined[OF wf] merged by (intro ext) simp
  have frame: "cells h' ?base = cells h ?base" "cells h' ov = cells h ov"
    using call processTemplate_frame[OF alloc(1), of this promptCache promptFileName "IsMap ov" a3]
      processTemplate_frame[OF alloc(2), of this promptCache promptFileName "IsMap ov" a3]
    by simp_all
  have same: "this' = this"
    using call processTemplate_engine[of this promptCache h promptFileName "IsMap ov" a3] by simp
  have subst: "processedTemplate r = substituteAll ?look found text \<and>
      (\<forall>v \<in> set found. v \<in> fst ` set (cells h ov) \<longrightarrow> v \<in> set (variablesReplaced r))"
    if r: "outcome = Inr r" for r
  proof (cases "found = []")
    case True
    with processTemplate_reached[OF init prompt args found, of h] call r
    show ?thesis by (auto simp: Let_def substituteAll_def split: if_splits)
  next
    case False
    from call r have res: "fst (processTemplate this promptCache h promptFileName (IsMap ov) a3) = Inr r"
      by simp
    from processTemplate_result[OF init prompt args found False res]
    have pt: "processedTemplate r = substituteAll ?look found text"
      and rep: "set (variablesReplaced r) = {v \<in> set found. ?look v \<noteq> None}"
      unfolding look by simp_all
    have "v \<in> set (variablesReplaced r)" if "v \<in> set found" "v \<in> fst ` set (cells h ov)" for v
    proof -
      from that(2) have "map_of (cells h ov) v \<noteq> None" by (simp add: map_of_eq_None_iff)
      then have "?look v \<noteq> None" by (auto split: option.splits)
      with that(1) rep show ?thesis by simp
    qed
    with pt show ?thesis by blast
  qed
  from frame same subst show ?thesis by blast
qed

theorem processTemplate_override_precedence_witness:
  "TemplateEngine.initialized demo_engine \<and>
   getPrompt demo_cache ''t.txt'' = Inr ''{{x}} and {{x}}'' \<and>
   findUniqueVariablesRequired ''{{x}} and {{x}}'' (snd (resolveArguments (IsMap 1) None)) = Inr [''{{x}}''] \<and>
   maps_allocated demo_engine (Some 1) demo_heap \<and>
   cells demo_heap 0 = [(''{{x}}'', ''a'')] \<and>
   cells demo_heap 1 = [(''{{x}}'', ''b'')] \<and>
   fst (processTemplate demo_engine demo_cache demo_heap ''t.txt'' (IsMap 1) None) =
     Inr \<lparr>processedTemplate = ''b and b'', variablesFound = [''{{x}}''],
          variablesReplaced = [''{{x}}''], undefinedVariables = []\<rparr> \<and>
   cells (snd (snd (processTemplate demo_engine demo_cache demo_heap ''t.txt'' (IsMap 1) None))) 0 =
     [(''{{x}}'', ''a'')] \<and>
   fst (snd (processTemplate demo_engine demo_cache demo_heap ''t.txt'' (IsMap 1) None)) = demo_engine"
proof -
  let ?call = "processTemplate demo_engine demo_cache demo_heap ''t.txt'' (IsMap 1) None"
  have h1: "TemplateEngine.initialized demo_engine" by (simp add: demo_engine_def)
  have h2: "getPrompt demo_cache ''t.txt'' = Inr ''{{x}} and {{x}}''"
    by (simp add: getPrompt_def demo_cache_def)
  have h3: "findUniqueVariablesRequired ''{{x}} and {{x}}'' (snd (resolveArguments (IsMap 1) None)) =
      Inr [''{{x}}'']"
    by (simp add: eval_defs)
  have h4: "maps_allocated demo_engine (Some 1) demo_heap"
    by (simp add: maps_allocated_def demo_engine_def demo_heap_def)
  have h5: "?call = (fst ?call, fst (snd ?call), snd (snd ?call))" by simp
  have c: "cells demo_heap 0 = [(''{{x}}'', ''a'')]" "cells demo_heap 1 = [(''{{x}}'', ''b'')]"
    "variableMap (variableDefinitions demo_engine) = 0"
    by (simp_all add: demo_heap_def demo_engine_def)
  have run: "fst ?call =
     Inr \<lparr>processedTemplate = ''b and b'', variablesFound = [''{{x}}''],
          variablesReplaced = [''{{x}}''], undefinedVariables = []\<rparr>"
    by (simp add: eval_defs)
  from processTemplate_override_precedence[OF h1 h2 h3 h4 h5] have
    "cells (snd (snd ?call)) 0 = cells demo_heap 0" "fst (snd ?call) = demo_engine"
    unfolding c(3) by simp_all
  with h1 h2 h3 h4 c run show ?thesis by simp
qed

subsection \<open>Failed calls\<close>

text \<open>
  Claim C10. Whenever \<open>processTemplate\<close> fails, with whatever error, the engine is
  unchanged: its \<open>initialized\<close> flag keeps its value and the map of its baseline holds
  the entries it held before the call.
\<close>

theorem processTemplate_failure_keeps_state:
  assumes fails: "processTemplate this promptCache h promptFileName a2 a3 = (Inl err, this', h')"
    and alloc: "variableMap (variableDefinitions this) < next_ref h"
  shows "this' = this \<and>
         TemplateEngine.initialized this' = TemplateEngine.initialized this \<and>
         cells h' (variableMap (variableDefinitions this')) =
           cells h (variableMap (variableDefinitions this))"
proof -
  from fails processTemplate_engine[of this promptCache h promptFileName a2 a3]
  have same: "this' = this" by simp
  from fails processTemplate_frame[OF alloc, of this promptCache promptFileName a2 a3]
  have "cells h' (variableMap (variableDefinitions this)) =
        cells h (variableMap (variableDefinitions this))" by simp
  with same show ?thesis by simp
qed

theorem processTemplate_failure_keeps_state_witness:
  "processTemplate demo_engine demo_cache demo_heap ''r.txt'' IsUndefined None =
     (Inl \<lparr>errorType = VARIABLE_NOT_DEFINED,
           message = ''Variables not defined: {{role}}. Available variables: {{x}}''\<rparr>,
      demo_engine,
      snd (snd (processTemplate demo_engine demo_cache demo_heap ''r.txt'' IsUndefined None))) \<and>
   variableMap (variableDefinitions demo_engine) < next_ref demo_heap \<and>
   cells demo_heap (variableMap (variableDefinitions demo_engine)) = [(''{{x}}'', ''a'')] \<and>
   cells (snd (snd (processTemplate demo_engine demo_cache demo_heap ''r.txt'' IsUndefined None)))
     (variableMap (variableDefinitions demo_engine)) = [(''{{x}}'', ''a'')]"
proof -
  let ?call = "processTemplate demo_engine demo_cache demo_heap ''r.txt'' IsUndefined None"
  let ?err = "\<lparr>errorType = VARIABLE_NOT_DEFINED,
           message = ''Variables not defined: {{role}}. Available variables: {{x}}''\<rparr>"
  have run: "fst ?call = Inl ?err"
    by (simp add: eval_defs)
  have eng: "fst (snd ?call) = demo_engine"
    by (simp add: processTemplate_def Let_def split_beta split: sum.splits)
  have call: "?call = (Inl ?err, demo_engine, snd (snd ?call))"
    using run eng by (simp add: prod_eq_iff)
  have alloc: "variableMap (variableDefinitions demo_engine) < next_ref demo_heap"
    by (simp add: demo_engine_def demo_heap_def)
  have c: "cells demo_heap (variableMap (variableDefinitions demo_engine)) = [(''{{x}}'', ''a'')]"
    by (simp add: demo_engine_def demo_heap_def)
  from processTemplate_failure_keeps_state[OF call alloc] c call alloc show ?thesis by simp
qed

subsection \<open>The store: lookup\<close>

text \<open>
  Claim C6, as the claim states it, fails where the store is not ready: \<open>getPrompt\<close>
  then fails with \<open>INITIALIZATION_ERROR\<close>, not with \<open>FILE_NOT_FOUND\<close>.
\<close>

theorem getPrompt_not_ready_counterexample:
  "\<not> PromptCache.initialized (PromptCache_new None None) \<and>
   getPrompt (PromptCache_new None None) ''Q.txt'' =
     Inl \<lparr>errorType = INITIALIZATION_ERROR,
          message = ''PromptCache not initialized. Call initialize() first.''\<rparr> \<and>
   errorType \<lparr>errorType = INITIALIZATION_ERROR,
              message = ''PromptCache not initialized. Call initialize() first.''\<rparr> \<noteq>
     FILE_NOT_FOUND"
  by (simp add: getPrompt_def PromptCache_new_def not_initialized_error_def)

text \<open>
  Claim C6, amended. \<open>getPrompt\<close> fails with \<open>INITIALIZATION_ERROR\<close> if the store is
  not ready; on a ready store it fails with \<open>FILE_NOT_FOUND\<close> if the identifier is
  absent from the cache; when it succeeds the store is ready and the result is the
  cached content of the identifier, and on a ready store every cached identifier is
  found.
\<close>

theorem getPrompt_errors:
  "(\<not> PromptCache.initialized this \<longrightarrow>
      (\<exists>err. getPrompt this fileName = Inl err \<and> errorType err = INITIALIZATION_ERROR)) \<and>
   (PromptCache.initialized this \<and> fileName \<notin> fst ` set (cache this) \<longrightarrow>
      (\<exists>err. getPrompt this fileName = Inl err \<and> errorType err = FILE_NOT_FOUND)) \<and>
   (\<forall>content. getPrompt this fileName = Inr content \<longrightarrow>
      PromptCache.initialized this \<and> map_of (cache this) fileName = Some content) \<and>
   (PromptCache.initialized this \<longrightarrow>
      (\<forall>content. map_of (cache this) fileName = Some content \<longrightarrow>
         getPrompt this fileName = Inr content))"
  by (auto simp: getPrompt_def not_initialized_error_def map_of_eq_None_iff[symmetric]
      split: option.splits)

theorem getPrompt_errors_witness:
  "\<not> PromptCache.initialized (PromptCache_new None None) \<and>
   (\<exists>err. getPrompt (PromptCache_new None None) ''t.txt'' = Inl err \<and>
      errorType err = INITIALIZATION_ERROR) \<and>
   PromptCache.initialized demo_cache \<and>
   ''Q.txt'' \<notin> fst ` set (cache demo_cache) \<and>
   (\<exists>err. getPrompt demo_cache ''Q.txt'' = Inl err \<and> errorType err = FILE_NOT_FOUND) \<and>
   map_of (cache demo_cache) ''n.txt'' = Some ''plain'' \<and>
   getPrompt demo_cache ''n.txt'' = Inr ''plain''"
proof -
  have a: "\<not> PromptCache.initialized (PromptCache_new None None)"
    by (simp add: PromptCache_new_def)
  have b: "PromptCache.initialized demo_cache" "''Q.txt'' \<notin> fst ` set (cache demo_cache)"
    "map_of (cache demo_cache) ''n.txt'' = Some ''plain''"
    by (simp_all add: demo_cache_def)
  from getPrompt_errors[of "PromptCache_new None None" "''t.txt''"] a
  have 1: "\<exists>err. getPrompt (PromptCache_new None None) ''t.txt'' = Inl err \<and>
      errorType err = INITIALIZATION_ERROR" by blast
  from getPrompt_errors[of demo_cache "''Q.txt''"] b
  have 2: "\<exists>err. getPrompt demo_cache ''Q.txt'' = Inl err \<and> errorType err = FILE_NOT_FOUND"
    by blast
  from getPrompt_errors[of demo_cache "''n.txt''"] b
  have 3: "getPrompt demo_cache ''n.txt'' = Inr ''plain''" by blast
  from a b 1 2 3 show ?thesis by blast
qed

subsection \<open>The store: fallback on a miss\<close>

text \<open>
  Claim C7. On an initialized store whose cache lacks the identifier,
  \<open>getPromptWithFallback\<close> reads the file of that name in the configured directory. If
  the read succeeds, it returns the content and caches it: \<open>getPrompt\<close> on the store
  after the call returns the content and \<open>hasPrompt\<close> holds. If the read fails, it
  fails with \<open>FILE_NOT_FOUND\<close> and leaves the store as it was. It fails only when
  the read fails, and then with \<open>FILE_NOT_FOUND\<close>.
\<close>

theorem getPromptWithFallback_caches:
  assumes ready: "PromptCache.initialized this"
    and miss: "map_of (cache this) fileName = None"
  shows "(\<forall>content. readFile node (path_join node (PromptCache.promptsDirectory this) fileName) = Inr content \<longrightarrow>
            (\<exists>this'. getPromptWithFallback node this fileName = (Inr content, this') \<and>
                     getPrompt this' fileName = Inr content \<and>
                     hasPrompt this' fileName)) \<and>
         (\<forall>e. readFile node (path_join node (PromptCache.promptsDirectory this) fileName) = Inl e \<longrightarrow>
            (\<exists>err. getPromptWithFallback node this fileName = (Inl err, this) \<and>
                   errorType err = FILE_NOT_FOUND)) \<and>
         (\<forall>err this'. getPromptWithFallback node this fileName = (Inl err, this') \<longrightarrow>
            errorType err = FILE_NOT_FOUND \<and>
            (\<exists>e. readFile node (path_join node (PromptCache.promptsDirectory this) fileName) = Inl e))"
  using assms
  by (auto simp: getPromptWithFallback_def getPrompt_def hasPrompt_def update_conv' dom_update
      split: sum.splits)

theorem getPromptWithFallback_caches_witness:
  "PromptCache.initialized demo_cache \<and>
   map_of (cache demo_cache) ''Q.txt'' = None \<and>
   readFile demo_node (path_join demo_node (PromptCache.promptsDirectory demo_cache) ''Q.txt'') = Inr ''Ask {{q}}'' \<and>
   fst (getPromptWithFallback demo_node demo_cache ''Q.txt'') = Inr ''Ask {{q}}'' \<and>
   getPrompt (snd (getPromptWithFallback demo_node demo_cache ''Q.txt'')) ''Q.txt'' = Inr ''Ask {{q}}'' \<and>
   hasPrompt (snd (getPromptWithFallback demo_node demo_cache ''Q.txt'')) ''Q.txt'' \<and>
   map_of (cache demo_cache) ''Z.txt'' = None \<and>
   readFile demo_node (path_join demo_node (PromptCache.promptsDirectory demo_cache) ''Z.txt'') =
     Inl ''Error: ENOENT: no such file or directory'' \<and>
   (\<exists>err. getPromptWithFallback demo_node demo_cache ''Z.txt'' = (Inl err, demo_cache) \<and>
      errorType err = FILE_NOT_FOUND)"
proof -
  have a: "PromptCache.initialized demo_cache" "map_of (cache demo_cache) ''Q.txt'' = None"
    "map_of (cache demo_cache) ''Z.txt'' = None"
    by (simp_all add: demo_cache_def)
  have b: "readFile demo_node (path_join demo_node (PromptCache.promptsDirectory demo_cache) ''Q.txt'') =
      Inr ''Ask {{q}}''"
    "readFile demo_node (path_join demo_node (PromptCache.promptsDirectory demo_cache) ''Z.txt'') =
      Inl ''Error: ENOENT: no such file or directory''"
    by (simp_all add: demo_node_def demo_cache_def)
  from getPromptWithFallback_caches[OF a(1) a(2), of demo_node] b(1)
  obtain this' where "getPromptWithFallback demo_node demo_cache ''Q.txt'' = (Inr ''Ask {{q}}'', this')"
    "getPrompt this' ''Q.txt'' = Inr ''Ask {{q}}''" "hasPrompt this' ''Q.txt''"
    by blast
  then have 1: "fst (getPromptWithFallback demo_node demo_cache ''Q.txt'') = Inr ''Ask {{q}}''"
    "getPrompt (snd (getPromptWithFallback demo_node demo_cache ''Q.txt'')) ''Q.txt'' = Inr ''Ask {{q}}''"
    "hasPrompt (snd (getPromptWithFallback demo_node demo_cache ''Q.txt'')) ''Q.txt''"
    by simp_all
  from getPromptWithFallback_caches[OF a(1) a(3), of demo_node] b(2)
  have 2: "\<exists>err. getPromptWithFallback demo_node demo_cache ''Z.txt'' = (Inl err, demo_cache) \<and>
      errorType err = FILE_NOT_FOUND"
    by blast
  from a b 1 2 show ?thesis by blast
qed

subsection \<open>The store is a singleton\<close>

text \<open>
  Claim C8. Once \<^verbatim>\<open>PromptCache.instance\<close> holds a store, \<open>getInstance\<close> returns that
  store and leaves the field as it is, whatever directory and extensions it is given;
  constructing an engine, with whatever configuration, leaves the field as it is too.
  In particular a second call of \<open>getInstance\<close> returns what the first call returned.
\<close>

theorem getInstance_singleton:
  "getInstance dir exts (Some store) = (store, Some store) \<and>
   fst (snd (TemplateEngine_new cfg (Some store) h)) = Some store \<and>
   getInstance dir' exts' (snd (getInstance dir exts static_instance)) =
     getInstance dir exts static_instance"
  by (cases static_instance)
    (simp_all add: getInstance_def TemplateEngine_new_def split_beta Let_def)

theorem getInstance_singleton_witness:
  "getInstance (Some ''other'') (Some [''.tpl'']) (Some demo_cache) = (demo_cache, Some demo_cache) \<and>
   fst (snd (TemplateEngine_new
               \<lparr>promptsDirectory = ''other'', variableDefinitions = 1, enableCaching = None,
                promptFileExtensions = Some [''.tpl'']\<rparr>
               (Some demo_cache) demo_heap)) = Some demo_cache \<and>
   PromptCache.promptsDirectory (fst (getInstance (Some ''other'') (Some [''.tpl'']) (Some demo_cache))) =
     ''prompts'' \<and>
   PromptCache.promptsDirectory
     (fst (getInstance (Some ''other'') None (snd (getInstance (Some ''prompts'') None None)))) =
     ''prompts''"
proof -
  have first: "PromptCache.promptsDirectory (fst (getInstance (Some ''prompts'') None None)) = ''prompts''"
    by (simp add: getInstance_def PromptCache_new_def Let_def)
  have "PromptCache.promptsDirectory demo_cache = ''prompts''"
    by (simp add: demo_cache_def)
  with first
    getInstance_singleton[of "Some ''other''" "Some [''.tpl'']" demo_cache
      "\<lparr>promptsDirectory = ''other'', variableDefinitions = 1, enableCaching = None,
        promptFileExtensions = Some [''.tpl'']\<rparr>" demo_heap]
    getInstance_singleton[of "Some ''prompts''" None demo_cache demo_config demo_heap
      "Some ''other''" None None]
  show ?thesis by simp
qed

subsection \<open>An engine that was never initialized\<close>

text \<open>
  Claim C9. On an engine whose \<open>initialized\<close> flag is not set, with a store that is
  ready and holds the identifier, \<open>getRequiredVariables\<close> returns what the scan of the
  cached text returns; with the default pattern it succeeds with the set of the tokens
  of the text. \<open>processTemplate\<close> on the same engine fails with
  \<open>INITIALIZATION_ERROR\<close> and changes nothing.
\<close>

theorem getRequiredVariables_skips_engine_flag:
  assumes fresh: "\<not> TemplateEngine.initialized this"
    and ready: "PromptCache.initialized promptCache"
    and holds: "map_of (cache promptCache) promptFileName = Some text"
  shows "getRequiredVariables this promptCache promptFileName options =
           findUniqueVariablesRequired text
             (case options of None \<Rightarrow> no_options | Some opts \<Rightarrow> opts) \<and>
         (variablePattern (case options of None \<Rightarrow> no_options | Some opts \<Rightarrow> opts) = None \<longrightarrow>
            getRequiredVariables this promptCache promptFileName options =
              Inr (new_Set (match_all 0 text))) \<and>
         (\<exists>err. processTemplate this promptCache h promptFileName a2 a3 = (Inl err, this, h) \<and>
                errorType err = INITIALIZATION_ERROR)"
  using assms
  by (simp add: getRequiredVariables_def readPromptFile_def getPrompt_def processTemplate_def
      findUniqueVariablesRequired_def default_variablePattern_def new_Set_def split_beta)

theorem getRequiredVariables_skips_engine_flag_witness:
  "\<not> TemplateEngine.initialized (fst (TemplateEngine_new demo_config (Some demo_cache) demo_heap)) \<and>
   PromptCache.initialized demo_cache \<and>
   map_of (cache demo_cache) ''r.txt'' = Some ''Hello {{x}}, you are a {{role}}.'' \<and>
   variablePattern no_options = None \<and>
   getRequiredVariables (fst (TemplateEngine_new demo_config (Some demo_cache) demo_heap))
     demo_cache ''r.txt'' None = Inr [''{{x}}'', ''{{role}}''] \<and>
   (\<exists>err. fst (processTemplate (fst (TemplateEngine_new demo_config (Some demo_cache) demo_heap))
                 demo_cache demo_heap ''r.txt'' IsUndefined None) = Inl err \<and>
          errorType err = INITIALIZATION_ERROR)"
proof -
  let ?engine = "fst (TemplateEngine_new demo_config (Some demo_cache) demo_heap)"
  have a: "\<not> TemplateEngine.initialized ?engine"
    by (simp add: TemplateEngine_new_def split_beta Let_def)
  have b: "PromptCache.initialized demo_cache"
    and c: "map_of (cache demo_cache) ''r.txt'' = Some ''Hello {{x}}, you are a {{role}}.''"
    by (simp_all add: demo_cache_def)
  have d: "variablePattern no_options = None"
    by (simp add: no_options_def)
  have e: "new_Set (match_all 0 ''Hello {{x}}, you are a {{role}}.'') = [''{{x}}'', ''{{role}}'']"
    by (simp add: new_Set_def Set_add_def match_here_def isLineTerminator_def)
  from getRequiredVariables_skips_engine_flag[OF a b c, of None demo_heap IsUndefined None] a b c d e
  show ?thesis by auto
qed

subsection \<open>Replacing every occurrence\<close>

text \<open>
  Claim C4 says that every occurrence of a defined token is replaced with its value. The
  code calls \<^verbatim>\<open>replaceAll\<close> with the value as the replacement string, and
  \<^verbatim>\<open>replaceAll\<close> rewrites the replacement patterns in it. With the value \<^verbatim>\<open>$$\<close> for
  \<^verbatim>\<open>{{x}}\<close>, the template \<^verbatim>\<open>{{x}} and {{x}}\<close> becomes \<^verbatim>\<open>$ and $\<close>: both occurrences
  are replaced, but not with the value.
\<close>

theorem processTemplate_dollar_value:
  "fst (processTemplate demo_engine demo_cache demo_heap ''t.txt'' (IsMap 2) None) =
     Inr \<lparr>processedTemplate = ''$ and $'', variablesFound = [''{{x}}''],
          variablesReplaced = [''{{x}}''], undefinedVariables = []\<rparr>"
  by (simp add: eval_defs)

text \<open>
  Property X1. For a value without a dollar sign and a token that is not empty,
  \<open>replaceAll\<close> replaces every occurrence: where the first occurrence of the token stands
  after \<open>p\<close>, the result is \<open>p\<close>, the value, and the rest with its occurrences
  replaced in turn; a text without an occurrence is returned as it is.
\<close>

theorem replaceAll_every_occurrence:
  assumes plain: "CHR ''$'' \<notin> set val" and tok: "tok \<noteq> []"
  shows "((\<forall>i<length p. \<not> prefix tok (drop i (p @ tok @ rest))) \<longrightarrow>
            replaceAll (p @ tok @ rest) tok val = p @ val @ replaceAll rest tok val) \<and>
         ((\<forall>i. \<not> prefix tok (drop i s)) \<longrightarrow> replaceAll s tok val = s)"
proof (intro conjI impI)
  assume first: "\<forall>i<length p. \<not> prefix tok (drop i (p @ tok @ rest))"
  have "replaceAll (p @ tok @ rest) tok val =
        p @ val @ replaceAll_from tok val (p @ tok @ rest) 0 (0 + length p + length tok) rest"
    unfolding replaceAll_def by (rule replaceAll_from_first_match[OF plain tok first])
  also have "replaceAll_from tok val (p @ tok @ rest) 0 (0 + length p + length tok) rest =
        replaceAll rest tok val"
    unfolding replaceAll_def by (rule replaceAll_from_plain[OF plain])
  finally show "replaceAll (p @ tok @ rest) tok val = p @ val @ replaceAll rest tok val" .
next
  assume "\<forall>i. \<not> prefix tok (drop i s)"
  then show "replaceAll s tok val = s"
    unfolding replaceAll_def by (rule replaceAll_from_no_match[OF tok])
qed

theorem replaceAll_every_occurrence_witness:
  "CHR ''$'' \<notin> set ''Z'' \<and> ''{{x}}'' \<noteq> [] \<and>
   replaceAll ''{{x}} and {{x}}'' ''{{x}}'' ''Z'' = ''Z and Z''"
proof -
  have a: "CHR ''$'' \<notin> set ''Z''" "''{{x}}'' \<noteq> []" by simp_all
  have none: "\<forall>i. \<not> prefix ''{{x}}'' (drop i [])" by simp
  have one: "\<forall>i<length '' and ''. \<not> prefix ''{{x}}'' (drop i ('' and '' @ ''{{x}}'' @ []))"
  proof (intro allI impI)
    fix i :: nat assume "i < length '' and ''"
    then have "i \<in> {0, 1, 2, 3, 4}" by auto
    then show "\<not> prefix ''{{x}}'' (drop i ('' and '' @ ''{{x}}'' @ []))"
      by (auto simp: numeral_eq_Suc)
  qed
  from replaceAll_every_occurrence[OF a, of "[]" "[]" "[]"] none have e: "replaceAll [] ''{{x}}'' ''Z'' = []" by blast
  from replaceAll_every_occurrence[OF a, of "'' and ''" "[]" "[]"] one e
  have "replaceAll ('' and '' @ ''{{x}}'' @ []) ''{{x}}'' ''Z'' = '' and '' @ ''Z'' @ []" by simp
  then have r: "replaceAll '' and {{x}}'' ''{{x}}'' ''Z'' = '' and Z''" by simp
  from replaceAll_every_occurrence[OF a, of "[]" "'' and {{x}}''" "[]"] r
  have "replaceAll ''{{x}} and {{x}}'' ''{{x}}'' ''Z'' = ''Z and Z''"
    by simp
  with a show ?thesis by simp
qed

text \<open>
  Property X2. For a template with one discovered token, defined in the merged mapping,
  \<open>processTemplate\<close> returns the template with \<open>replaceAll\<close> applied for that token,
  records the token as replaced and leaves \<open>undefinedVariables\<close> empty.
\<close>

theorem processTemplate_single_token:
  assumes init: "TemplateEngine.initialized this"
    and prompt: "getPrompt promptCache promptFileName = Inr text"
    and args: "resolveArguments a2 a3 = (ovr, opts)"
    and found: "findUniqueVariablesRequired text opts = Inr [tok]"
    and wf: "maps_allocated this ovr h"
    and defd: "mergedMapping this ovr h tok = Some val"
  shows "fst (processTemplate this promptCache h promptFileName a2 a3) =
           Inr \<lparr>processedTemplate = replaceAll text tok val, variablesFound = [tok],
                variablesReplaced = [tok], undefinedVariables = []\<rparr>"
proof -
  let ?cv = "fst (combineVariables this ovr h)"
  let ?h = "snd (combineVariables this ovr h)"
  have look: "getVariable ?cv ?h tok = Some val"
    using getVariable_combined[OF wf, of tok] defd by simp
  then have valid: "validateVariablesWithMap [tok] ?cv ?h = Inr True"
    using validateVariablesWithMap_cases[of "[tok]" ?cv ?h] by simp
  from processTemplate_reached[OF init prompt args found, of h] look valid
  show ?thesis by (simp add: Let_def Set_add_def)
qed

theorem processTemplate_single_token_witness:
  "TemplateEngine.initialized demo_engine \<and>
   getPrompt demo_cache ''t.txt'' = Inr ''{{x}} and {{x}}'' \<and>
   resolveArguments IsUndefined None = (None, no_options) \<and>
   findUniqueVariablesRequired ''{{x}} and {{x}}'' no_options = Inr [''{{x}}''] \<and>
   maps_allocated demo_engine None demo_heap \<and>
   mergedMapping demo_engine None demo_heap ''{{x}}'' = Some ''a'' \<and>
   fst (processTemplate demo_engine demo_cache demo_heap ''t.txt'' IsUndefined None) =
     Inr \<lparr>processedTemplate = ''a and a'', variablesFound = [''{{x}}''],
          variablesReplaced = [''{{x}}''], undefinedVariables = []\<rparr>"
proof -
  have h1: "TemplateEngine.initialized demo_engine" by (simp add: demo_engine_def)
  have h2: "getPrompt demo_cache ''t.txt'' = Inr ''{{x}} and {{x}}''"
    by (simp add: getPrompt_def demo_cache_def)
  have h3: "resolveArguments IsUndefined None = (None, no_options)"
    by (simp add: resolveArguments_def)
  have h4: "findUniqueVariablesRequired ''{{x}} and {{x}}'' no_options = Inr [''{{x}}'']"
    by (simp add: eval_defs)
  have h5: "maps_allocated demo_engine None demo_heap"
    by (simp add: maps_allocated_def demo_engine_def demo_heap_def)
  have h6: "mergedMapping demo_engine None demo_heap ''{{x}}'' = Some ''a''"
    by (simp add: mergedMapping_def demo_engine_def demo_heap_def)
  have r: "replaceAll ''{{x}} and {{x}}'' ''{{x}}'' ''a'' = ''a and a''"
    by (simp add: replaceAll_def)
  from processTemplate_single_token[OF h1 h2 h3 h4 h5 h6] r h1 h2 h3 h4 h5 h6 show ?thesis by simp
qed

subsection \<open>The options of a call\<close>

text \<open>
  Property X3. The third argument of \<open>processTemplate\<close> is read only when the second
  one is a map: with an absent second argument, or with options as the second argument,
  the options given as the third argument are dropped. So a template without tokens
  fails with \<open>VALIDATION_ERROR\<close> when \<open>strictMode\<close> is switched off in a third argument
  that follows an absent second one.
\<close>

theorem processTemplate_third_argument:
  "processTemplate this promptCache h promptFileName IsUndefined (Some opts) =
     processTemplate this promptCache h promptFileName IsUndefined None \<and>
   processTemplate this promptCache h promptFileName (IsOptions opts') (Some opts) =
     processTemplate this promptCache h promptFileName (IsOptions opts') None"
  by (simp add: processTemplate_def resolveArguments_def)

theorem processTemplate_third_argument_witness:
  "strictMode lax_options = Some False \<and>
   fst (processTemplate demo_engine demo_cache demo_heap ''n.txt'' IsUndefined (Some lax_options)) =
     Inl \<lparr>errorType = VALIDATION_ERROR, message = ''No variables found in the prompt file.''\<rparr>"
proof -
  have "fst (processTemplate demo_engine demo_cache demo_heap ''n.txt'' IsUndefined None) =
     Inl \<lparr>errorType = VALIDATION_ERROR, message = ''No variables found in the prompt file.''\<rparr>"
    by (simp add: eval_defs)
  with processTemplate_third_argument[of demo_engine demo_cache demo_heap "''n.txt''" lax_options lax_options]
  show ?thesis by (simp add: lax_options_def)
qed

end
